theory Spec2Isabelle
  imports Main "HOL-Library.Word" "HOL-Library.Char_ord" "HOL-Library.List_Lexorder"
begin

section \<open>Election campaign manager: the Azle canister as state-passing functions\<close>

text \<open>
  The canister keeps seven \<^verbatim>\<open>StableBTreeMap\<close>s and exposes query and update methods
  that return \<^verbatim>\<open>Result(T, Error)\<close>. Each method is modelled as a function from the
  stores to a result and the stores after the call. A method whose body raises an
  uncaught JavaScript exception makes the call trap; that is the outcome \<open>Throw\<close>.
\<close>

subsection \<open>Candid types of the source\<close>

type_synonym nat64 = "64 word"
type_synonym Principal = string

datatype UserRole = Admin | CampaignManager | Donor

text \<open>
  Several source records share field names (\<^verbatim>\<open>id\<close>, \<^verbatim>\<open>campaign_id\<close>,
  \<^verbatim>\<open>created_at\<close>); each field carries a short prefix for its record here.
\<close>

record Campaign =
  c_id :: string
  c_name :: string
  c_description :: string
  c_created_by :: string
  c_created_at :: string
  c_updated_at :: string

record Donation =
  d_id :: string
  d_campaign_id :: string
  d_donor_name :: string
  d_amount :: nat64
  d_created_at :: string

record Expense =
  e_id :: string
  e_campaign_id :: string
  e_description :: string
  e_amount :: nat64
  e_created_at :: string

record VoterOutreach =
  v_id :: string
  v_campaign_id :: string
  v_activity :: string
  v_date :: string
  v_status :: string
  v_created_at :: string

record SecureMessage =
  m_id :: string
  m_campaign_id :: string
  m_sender :: string
  m_content :: string
  m_created_at :: string

record Notification =
  n_id :: string
  n_campaign_id :: string
  n_message :: string
  n_created_at :: string

record User =
  u_id :: string
  u_owner :: Principal
  u_username :: string
  u_role :: UserRole
  u_points :: nat64
  u_created_at :: string

record CampaignPayload =
  cp_name :: string
  cp_description :: string
  cp_created_by :: string

record DonationPayload =
  dp_campaign_id :: string
  dp_donor_name :: string
  dp_amount :: nat64

record ExpensePayload =
  ep_campaign_id :: string
  ep_description :: string
  ep_amount :: nat64

record VoterOutreachPayload =
  vp_campaign_id :: string
  vp_activity :: string
  vp_date :: string
  vp_status :: string

record MessagePayload =
  mp_campaign_id :: string
  mp_sender :: string
  mp_content :: string

record UserPayload =
  up_username :: string
  up_role :: UserRole

datatype Error =
    NotFound string
  | InvalidPayload string
  | Unauthorized string
  | ValidationError string

datatype 'a Result = Ok 'a | Err Error

subsection \<open>The stable maps\<close>

text \<open>
  A \<^verbatim>\<open>StableBTreeMap(_, text, V)\<close> is an ordered map: the list of its entries in key
  order, one entry per key. \<^verbatim>\<open>insert\<close> replaces the entry of a key that is present
  and puts a new key at its place in the order; \<^verbatim>\<open>get\<close> returns Azle's
  \<^verbatim>\<open>Opt\<close>, the object \<^verbatim>\<open>{Some: v}\<close> or \<^verbatim>\<open>{None: null}\<close>, modelled by
  \<open>option\<close>; \<^verbatim>\<open>values()\<close> lists the values in key order.

  Azle stores a key as its Candid encoding and the map compares the encoded bytes.
  The encoding of a text is a header, the same for every text, then the length of the
  text in bytes as an unsigned LEB128 number, then the bytes of the text. Keys are
  therefore ordered by \<open>key_bytes\<close>, the length before the content; keys of one
  length, such as the uuids the canister generates, are ordered as strings.
\<close>

fun leb128 :: "nat \<Rightarrow> char list" where
  "leb128 n = (if n < 128 then [char_of n]
               else char_of (128 + n mod 128) # leb128 (n div 128))"

declare leb128.simps [simp del]

definition key_bytes :: "string \<Rightarrow> char list" where
  "key_bytes k = leb128 (length k) @ k"

definition key_less :: "string \<Rightarrow> string \<Rightarrow> bool" where
  "key_less k k' = (key_bytes k < key_bytes k')"

type_synonym 'v StableBTreeMap = "(string \<times> 'v) list"

fun btree_insert :: "string \<Rightarrow> 'v \<Rightarrow> 'v StableBTreeMap \<Rightarrow> 'v StableBTreeMap" where
  "btree_insert k v [] = [(k, v)]"
| "btree_insert k v ((k', v') # m) =
     (if k = k' then (k, v) # m
      else if key_less k k' then (k, v) # (k', v') # m
      else (k', v') # btree_insert k v m)"

fun btree_get :: "'v StableBTreeMap \<Rightarrow> string \<Rightarrow> 'v option" where
  "btree_get [] k = None"
| "btree_get ((k', v') # m) k = (if k = k' then Some v' else btree_get m k)"

definition btree_values :: "'v StableBTreeMap \<Rightarrow> 'v list" where
  "btree_values m = map snd m"

record stores =
  campaignStorage :: "Campaign StableBTreeMap"
  donationStorage :: "Donation StableBTreeMap"
  expenseStorage :: "Expense StableBTreeMap"
  outreachStorage :: "VoterOutreach StableBTreeMap"
  messageStorage :: "SecureMessage StableBTreeMap"
  notificationStorage :: "Notification StableBTreeMap"
  userStorage :: "User StableBTreeMap"

subsection \<open>What the runtime supplies to a call\<close>

text \<open>
  \<^verbatim>\<open>uuidv4()\<close>, \<^verbatim>\<open>new Date().toISOString()\<close> and \<^verbatim>\<open>ic.caller()\<close> are given
  from outside: \<open>uuidv4 pr i\<close> is what the \<open>i\<close>-th call of \<^verbatim>\<open>uuidv4()\<close> during the
  message returns (counting from 0), \<open>toISOString pr j\<close> what the \<open>j\<close>-th reading of
  the clock returns. A canister message is executed at one time of the Internet
  Computer, so the readings of one call are equal; a property that needs this has it
  as a hypothesis.
\<close>

record provider =
  uuidv4 :: "nat \<Rightarrow> string"
  toISOString :: "nat \<Rightarrow> string"
  caller :: Principal

datatype 'a outcome = Return "'a Result" stores | Throw

subsection \<open>JavaScript tests on Azle values\<close>

text \<open>
  An \<^verbatim>\<open>Opt\<close> is always an object. The comparison \<^verbatim>\<open>opt === null\<close> is therefore
  false and the negation \<^verbatim>\<open>!opt\<close> is false, whether the object is
  \<^verbatim>\<open>{Some: v}\<close> or \<^verbatim>\<open>{None: null}\<close>. The test \<^verbatim>\<open>"None" in opt\<close> tells the two
  apart; it is written as the \<open>None\<close> case of a \<open>case\<close> on the option, whose
  \<open>Some\<close> case binds \<^verbatim>\<open>opt.Some\<close>. Reading \<^verbatim>\<open>opt.Some\<close> of
  \<^verbatim>\<open>{None: null}\<close> gives \<^verbatim>\<open>undefined\<close>, and reading a property of
  \<^verbatim>\<open>undefined\<close> raises a TypeError.
\<close>

definition opt_strict_eq_null :: "'a option \<Rightarrow> bool" where
  "opt_strict_eq_null opt = False"

definition opt_not :: "'a option \<Rightarrow> bool" where
  "opt_not opt = False"

text \<open>
  A variant value is the object with the single property of its tag, whose value is
  \<^verbatim>\<open>null\<close>: \<^verbatim>\<open>{Admin: null}\<close>. Reading the property of another tag gives
  \<^verbatim>\<open>undefined\<close>, and \<^verbatim>\<open>undefined !== null\<close> holds.
\<close>

datatype js_value = JsNull | JsUndefined

definition role_prop :: "UserRole \<Rightarrow> UserRole \<Rightarrow> js_value" where
  "role_prop r tag = (if r = tag then JsNull else JsUndefined)"

definition tag_in :: "UserRole \<Rightarrow> UserRole \<Rightarrow> bool" where
  "tag_in tag r = (r = tag)"

text \<open>\<^verbatim>\<open>!payload.role\<close>: a variant is an object, so its negation is false.\<close>

definition role_not :: "UserRole \<Rightarrow> bool" where
  "role_not r = False"

text \<open>\<^verbatim>\<open>!s\<close> for a string \<open>s\<close> holds exactly for the empty string.\<close>

definition str_not :: "string \<Rightarrow> bool" where
  "str_not s = (s = [])"

subsection \<open>The notification helper\<close>

text \<open>
  \<^verbatim>\<open>notifyParticipants\<close> draws the uuid number \<open>i\<close> and reads the clock at \<open>j\<close>
  (and once more for an \<^verbatim>\<open>updated_at\<close> property, which is no field of the
  \<^verbatim>\<open>Notification\<close> record and is not stored).
\<close>

definition notifyParticipants :: "provider \<Rightarrow> nat \<Rightarrow> nat \<Rightarrow> string \<Rightarrow> string \<Rightarrow> stores \<Rightarrow> stores" where
  "notifyParticipants pr i j campaignId message s =
     (let notificationId = uuidv4 pr i;
          notification = \<lparr>n_id = notificationId, n_campaign_id = campaignId,
                          n_message = message, n_created_at = toISOString pr j\<rparr>
      in s\<lparr>notificationStorage :=
             btree_insert notificationId notification (notificationStorage s)\<rparr>)"

subsection \<open>User management\<close>

text \<open>The six emoji of the duplicate-username message, as their UTF-8 bytes.\<close>

definition astonished :: string where
  "astonished =
     [CHR 0xF0, CHR 0x9F, CHR 0x98, CHR 0xB2, CHR '' '',
      CHR 0xF0, CHR 0x9F, CHR 0xA4, CHR 0xAF, CHR '' '',
      CHR 0xF0, CHR 0x9F, CHR 0x98, CHR 0xAE, CHR '' '',
      CHR 0xF0, CHR 0x9F, CHR 0x98, CHR 0xB1, CHR '' '',
      CHR 0xF0, CHR 0x9F, CHR 0x98, CHR 0xB3, CHR '' '',
      CHR 0xE2, CHR 0x9C, CHR 0xA8]"

definition createUser :: "provider \<Rightarrow> UserPayload \<Rightarrow> stores \<Rightarrow> User outcome" where
  "createUser pr payload s =
     (if role_not (up_role payload) \<or> role_not (up_role payload) then
        Return (Err (InvalidPayload '' Ensure all required fields are provided!'')) s
      else
        (case find (\<lambda>user. u_username user = up_username payload)
                   (btree_values (userStorage s)) of
           Some existingUser \<Rightarrow>
             Return (Err (ValidationError
               (''Username already exists '' @ astonished @ '', try another one''))) s
         | None \<Rightarrow>
             (let userId = uuidv4 pr 0;
                  user = \<lparr>u_id = userId, u_owner = caller pr,
                          u_username = up_username payload, u_role = up_role payload,
                          u_points = 0, u_created_at = toISOString pr 0\<rparr>
              in Return (Ok user)
                   (s\<lparr>userStorage := btree_insert userId user (userStorage s)\<rparr>))))"

definition getUsersByRole :: "UserRole \<Rightarrow> stores \<Rightarrow> User list Result" where
  "getUsersByRole role s =
     (let users = filter (\<lambda>user.
            if role_prop role Admin \<noteq> JsNull then role_prop (u_role user) Admin \<noteq> JsNull
            else if role_prop role CampaignManager \<noteq> JsNull
              then role_prop (u_role user) CampaignManager \<noteq> JsNull
            else False) (btree_values (userStorage s))
      in if length users = 0 then Err (NotFound ''No users found with the specified role'')
         else Ok users)"

subsection \<open>Campaign management\<close>

definition createCampaign :: "provider \<Rightarrow> CampaignPayload \<Rightarrow> stores \<Rightarrow> Campaign outcome" where
  "createCampaign pr payload s =
     (if str_not (cp_name payload) \<or> str_not (cp_description payload) then
        Return (Err (InvalidPayload ''Ensure 'name' and 'description' are provided'')) s
      else
        (let userOpt = btree_get (userStorage s) (cp_created_by payload) in
         if opt_strict_eq_null userOpt then
           Return (Err (NotFound (''User with ID '' @ cp_created_by payload @ '' not found''))) s
         else
           (case userOpt of
              None \<Rightarrow> Throw
            | Some user \<Rightarrow>
                (let hasValidRole =
                       (tag_in Admin (u_role user) \<or> tag_in CampaignManager (u_role user))
                 in if \<not> hasValidRole then
                      Return (Err (Unauthorized
                        ''Only Admins and Campaign Managers can create campaigns'')) s
                    else
                      (let campaignId = uuidv4 pr 0;
                           timestamp = toISOString pr 0;
                           campaign = \<lparr>c_id = campaignId, c_name = cp_name payload,
                                       c_description = cp_description payload,
                                       c_created_by = cp_created_by payload,
                                       c_created_at = toISOString pr 1,
                                       c_updated_at = timestamp\<rparr>;
                           s1 = s\<lparr>campaignStorage :=
                                   btree_insert campaignId campaign (campaignStorage s)\<rparr>
                       in Return (Ok campaign)
                            (notifyParticipants pr 1 2 campaignId
                               ''New campaign created.'' s1))))))"

definition updateCampaign :: "provider \<Rightarrow> string \<Rightarrow> CampaignPayload \<Rightarrow> stores \<Rightarrow> Campaign outcome" where
  "updateCampaign pr campaignId payload s =
     (case btree_get (campaignStorage s) campaignId of
        None \<Rightarrow>
          Return (Err (NotFound (''Campaign with ID '' @ campaignId @ '' not found''))) s
      | Some existingCampaign \<Rightarrow>
          (if str_not (cp_name payload) \<or> str_not (cp_description payload) then
             Return (Err (InvalidPayload ''Ensure 'name' and 'description' are provided'')) s
           else
             (case btree_get (userStorage s) (cp_created_by payload) of
                None \<Rightarrow>
                  Return (Err (NotFound
                    (''User with ID '' @ cp_created_by payload @ '' not found''))) s
              | Some user \<Rightarrow>
                  (let hasValidRole =
                         (tag_in Admin (u_role user) \<or> tag_in CampaignManager (u_role user))
                   in if \<not> hasValidRole then
                        Return (Err (Unauthorized
                          ''Only Admins and Campaign Managers can update campaigns'')) s
                      else
                        (let updatedCampaign = existingCampaign
                               \<lparr>c_name := cp_name payload,
                                c_description := cp_description payload,
                                c_created_by := cp_created_by payload,
                                c_updated_at := toISOString pr 0\<rparr>;
                             s1 = s\<lparr>campaignStorage :=
                                     btree_insert campaignId updatedCampaign
                                       (campaignStorage s)\<rparr>
                         in Return (Ok updatedCampaign)
                              (notifyParticipants pr 0 1 campaignId
                                 ''Campaign updated.'' s1))))))"

definition getCampaignById :: "string \<Rightarrow> stores \<Rightarrow> Campaign Result" where
  "getCampaignById campaignId s =
     (case btree_get (campaignStorage s) campaignId of
        None \<Rightarrow> Err (NotFound (''Campaign with ID '' @ campaignId @ '' not found''))
      | Some campaign \<Rightarrow> Ok campaign)"

subsection \<open>Donations, expenses, voter outreach, messages\<close>

text \<open>
  The caller of these four methods is looked up by the username of the second
  argument: \<^verbatim>\<open>users.find(...)\<close> gives the first user of \<^verbatim>\<open>values()\<close> with that
  username, or \<^verbatim>\<open>undefined\<close>, the \<open>None\<close> of \<open>find\<close>.
\<close>

definition createDonation :: "provider \<Rightarrow> DonationPayload \<Rightarrow> UserPayload \<Rightarrow> stores \<Rightarrow> Donation outcome" where
  "createDonation pr payload userPayload s =
     (let users = btree_values (userStorage s) in
      case find (\<lambda>u. u_username u = up_username userPayload) users of
        None \<Rightarrow> Return (Err (Unauthorized ''User not found'')) s
      | Some user \<Rightarrow>
          (if \<not> tag_in Donor (u_role user) then
             Return (Err (Unauthorized ''Only donors can create donations'')) s
           else if str_not (dp_donor_name payload) \<or> dp_amount payload \<le> 0 then
             Return (Err (InvalidPayload
               ''Ensure donor name and valid amount are provided'')) s
           else
             (case btree_get (campaignStorage s) (dp_campaign_id payload) of
                None \<Rightarrow> Return (Err (NotFound ''Campaign not found'')) s
              | Some campaign \<Rightarrow>
                  (let donationId = uuidv4 pr 0;
                       timestamp = toISOString pr 0;
                       donation = \<lparr>d_id = donationId,
                                   d_campaign_id = dp_campaign_id payload,
                                   d_donor_name = dp_donor_name payload,
                                   d_amount = dp_amount payload,
                                   d_created_at = timestamp\<rparr>;
                       s1 = s\<lparr>donationStorage :=
                               btree_insert donationId donation (donationStorage s)\<rparr>
                   in Return (Ok donation)
                        (notifyParticipants pr 1 1 (d_campaign_id donation)
                           ''New donation received.'' s1)))))"

definition createExpense :: "provider \<Rightarrow> ExpensePayload \<Rightarrow> UserPayload \<Rightarrow> stores \<Rightarrow> Expense outcome" where
  "createExpense pr payload userPayload s =
     (let users = btree_values (userStorage s) in
      case find (\<lambda>u. u_username u = up_username userPayload) users of
        None \<Rightarrow> Return (Err (Unauthorized ''User not found'')) s
      | Some user \<Rightarrow>
          (if \<not> tag_in Admin (u_role user) then
             Return (Err (Unauthorized ''Only admins can create expenses'')) s
           else if str_not (ep_description payload) \<or> ep_amount payload \<le> 0 then
             Return (Err (InvalidPayload
               ''Ensure description and valid amount are provided'')) s
           else
             (let campaign = btree_get (campaignStorage s) (ep_campaign_id payload) in
              if opt_not campaign then
                Return (Err (NotFound ''Campaign not found'')) s
              else
                (let expenseId = uuidv4 pr 0;
                     timestamp = toISOString pr 0;
                     expense = \<lparr>e_id = expenseId,
                                e_campaign_id = ep_campaign_id payload,
                                e_description = ep_description payload,
                                e_amount = ep_amount payload,
                                e_created_at = timestamp\<rparr>;
                     s1 = s\<lparr>expenseStorage :=
                             btree_insert expenseId expense (expenseStorage s)\<rparr>
                 in Return (Ok expense)
                      (notifyParticipants pr 1 1 (e_campaign_id expense)
                         ''New expense recorded.'' s1)))))"

definition createVoterOutreach :: "provider \<Rightarrow> VoterOutreachPayload \<Rightarrow> UserPayload \<Rightarrow> stores \<Rightarrow> VoterOutreach outcome" where
  "createVoterOutreach pr payload userPayload s =
     (let users = btree_values (userStorage s) in
      case find (\<lambda>u. u_username u = up_username userPayload) users of
        None \<Rightarrow> Return (Err (Unauthorized ''Invalid credentials'')) s
      | Some user \<Rightarrow>
          (if str_not (vp_activity payload) \<or> str_not (vp_date payload)
                \<or> str_not (vp_status payload) then
             Return (Err (InvalidPayload
               ''Ensure activity, date and status are provided'')) s
           else
             (let campaign = btree_get (campaignStorage s) (vp_campaign_id payload) in
              if opt_not campaign then
                Return (Err (NotFound ''Campaign not found'')) s
              else
                (let outreachId = uuidv4 pr 0;
                     outreach = \<lparr>v_id = outreachId,
                                 v_campaign_id = vp_campaign_id payload,
                                 v_activity = vp_activity payload,
                                 v_date = vp_date payload,
                                 v_status = vp_status payload,
                                 v_created_at = toISOString pr 0\<rparr>;
                     s1 = s\<lparr>outreachStorage :=
                             btree_insert outreachId outreach (outreachStorage s)\<rparr>
                 in Return (Ok outreach)
                      (notifyParticipants pr 1 1 (v_campaign_id outreach)
                         ''New voter outreach recorded.'' s1)))))"

definition createMessage :: "provider \<Rightarrow> MessagePayload \<Rightarrow> UserPayload \<Rightarrow> stores \<Rightarrow> SecureMessage outcome" where
  "createMessage pr payload userPayload s =
     (let users = btree_values (userStorage s) in
      case find (\<lambda>u. u_username u = up_username userPayload) users of
        None \<Rightarrow> Return (Err (Unauthorized ''Invalid credentials'')) s
      | Some user \<Rightarrow>
          (if str_not (mp_sender payload) \<or> str_not (mp_content payload) then
             Return (Err (InvalidPayload ''Ensure sender and content are provided'')) s
           else
             (case btree_get (userStorage s) (mp_sender payload) of
                None \<Rightarrow>
                  Return (Err (NotFound
                    (''Sender with ID '' @ mp_sender payload @ '' not found''))) s
              | Some sender \<Rightarrow>
                  (case btree_get (campaignStorage s) (mp_campaign_id payload) of
                     None \<Rightarrow> Return (Err (NotFound ''Campaign not found'')) s
                   | Some campaign \<Rightarrow>
                       (let messageId = uuidv4 pr 0;
                            message = \<lparr>m_id = messageId,
                                       m_campaign_id = mp_campaign_id payload,
                                       m_sender = mp_sender payload,
                                       m_content = mp_content payload,
                                       m_created_at = toISOString pr 0\<rparr>;
                            s1 = s\<lparr>messageStorage :=
                                    btree_insert messageId message (messageStorage s)\<rparr>
                        in Return (Ok message)
                             (notifyParticipants pr 1 1 (m_campaign_id message)
                                ''New message sent.'' s1))))))"

definition getNotificationsByCampaignId :: "string \<Rightarrow> stores \<Rightarrow> Notification list Result" where
  "getNotificationsByCampaignId campaignId s =
     (let notifications = filter (\<lambda>notification. n_campaign_id notification = campaignId)
                            (btree_values (notificationStorage s))
      in if length notifications = 0 then
           Err (NotFound ''No notifications found for this campaign'')
         else Ok notifications)"

subsection \<open>The shorter copy of the canister\<close>

text \<open>
  \<^verbatim>\<open>dfinity_js_backend/src/index.ts\<close> holds a second, shorter text of the user and
  campaign methods. Where it differs from the full canister above, the method is
  modelled again under the suffix \<open>_index\<close>: \<^verbatim>\<open>createUser\<close> also rejects an
  empty username, \<^verbatim>\<open>getUsersByRole\<close> filters with \<^verbatim>\<open>role in user.role\<close>,
  \<^verbatim>\<open>createCampaign\<close> tests \<^verbatim>\<open>"None" in userOpt\<close> and stamps both dates with one
  reading of the clock, and \<^verbatim>\<open>updateCampaign\<close> keeps \<^verbatim>\<open>created_by\<close>.
  Its \<^verbatim>\<open>getCampaignById\<close> is the one above, up to a full stop that ends the
  message.
\<close>

definition createUser_index :: "provider \<Rightarrow> UserPayload \<Rightarrow> stores \<Rightarrow> User outcome" where
  "createUser_index pr payload s =
     (if str_not (up_username payload) \<or> role_not (up_role payload) then
        Return (Err (InvalidPayload ''Ensure all required fields are provided.'')) s
      else
        (case find (\<lambda>user. u_username user = up_username payload)
                   (btree_values (userStorage s)) of
           Some existingUser \<Rightarrow>
             Return (Err (ValidationError ''Username already exists, try another.'')) s
         | None \<Rightarrow>
             (let userId = uuidv4 pr 0;
                  user = \<lparr>u_id = userId, u_owner = caller pr,
                          u_username = up_username payload, u_role = up_role payload,
                          u_points = 0, u_created_at = toISOString pr 0\<rparr>
              in Return (Ok user)
                   (s\<lparr>userStorage := btree_insert userId user (userStorage s)\<rparr>))))"

text \<open>
  In \<^verbatim>\<open>role in user.role\<close> the left operand is the variant object; as a property key
  it is the string \<^verbatim>\<open>[object Object]\<close>, which is no tag, so the test is false.
\<close>

definition getUsersByRole_index :: "UserRole \<Rightarrow> stores \<Rightarrow> User list Result" where
  "getUsersByRole_index role s =
     (let users = filter (\<lambda>user. False) (btree_values (userStorage s))
      in if length users = 0 then Err (NotFound ''No users found with the specified role.'')
         else Ok users)"

definition createCampaign_index :: "provider \<Rightarrow> CampaignPayload \<Rightarrow> stores \<Rightarrow> Campaign outcome" where
  "createCampaign_index pr payload s =
     (if str_not (cp_name payload) \<or> str_not (cp_description payload) then
        Return (Err (InvalidPayload ''Ensure 'name' and 'description' are provided.'')) s
      else
        (case btree_get (userStorage s) (cp_created_by payload) of
           None \<Rightarrow>
             Return (Err (NotFound
               (''User with ID '' @ cp_created_by payload @ '' not found.''))) s
         | Some user \<Rightarrow>
             (let hasValidRole =
                    (tag_in Admin (u_role user) \<or> tag_in CampaignManager (u_role user))
              in if \<not> hasValidRole then
                   Return (Err (Unauthorized
                     ''Only Admins and Campaign Managers can create campaigns.'')) s
                 else
                   (let campaignId = uuidv4 pr 0;
                        timestamp = toISOString pr 0;
                        campaign = \<lparr>c_id = campaignId, c_name = cp_name payload,
                                    c_description = cp_description payload,
                                    c_created_by = cp_created_by payload,
                                    c_created_at = timestamp,
                                    c_updated_at = timestamp\<rparr>;
                        s1 = s\<lparr>campaignStorage :=
                                btree_insert campaignId campaign (campaignStorage s)\<rparr>
                    in Return (Ok campaign)
                         (notifyParticipants pr 1 1 campaignId
                            ''New campaign created.'' s1)))))"

definition updateCampaign_index :: "provider \<Rightarrow> string \<Rightarrow> CampaignPayload \<Rightarrow> stores \<Rightarrow> Campaign outcome" where
  "updateCampaign_index pr campaignId payload s =
     (case btree_get (campaignStorage s) campaignId of
        None \<Rightarrow>
          Return (Err (NotFound (''Campaign with ID '' @ campaignId @ '' not found.''))) s
      | Some existingCampaign \<Rightarrow>
          (if str_not (cp_name payload) \<or> str_not (cp_description payload) then
             Return (Err (InvalidPayload ''Ensure 'name' and 'description' are provided.'')) s
           else
             (case btree_get (userStorage s) (cp_created_by payload) of
                None \<Rightarrow>
                  Return (Err (NotFound
                    (''User with ID '' @ cp_created_by payload @ '' not found.''))) s
              | Some user \<Rightarrow>
                  (let hasValidRole =
                         (tag_in Admin (u_role user) \<or> tag_in CampaignManager (u_role user))
                   in if \<not> hasValidRole then
                        Return (Err (Unauthorized
                          ''Only Admins and Campaign Managers can update campaigns.'')) s
                      else
                        (let updatedCampaign = existingCampaign
                               \<lparr>c_name := cp_name payload,
                                c_description := cp_description payload,
                                c_updated_at := toISOString pr 0\<rparr>;
                             s1 = s\<lparr>campaignStorage :=
                                     btree_insert campaignId updatedCampaign
                                       (campaignStorage s)\<rparr>
                         in Return (Ok updatedCampaign)
                              (notifyParticipants pr 0 1 campaignId
                                 ''Campaign updated.'' s1))))))"

subsection \<open>A sample state and a sample run of the runtime\<close>

text \<open>
  Three stored users, one of each role, and one campaign created by the campaign
  manager, the users stored under ids of one length. In \<open>sample_provider\<close> every
  reading of the clock gives the time of the message.
\<close>

definition alice :: User where
  "alice = \<lparr>u_id = ''user-1'', u_owner = ''2vxsx-fae'', u_username = ''alice'',
             u_role = CampaignManager, u_points = 0,
             u_created_at = ''2024-04-30T09:00:00.000Z''\<rparr>"

definition bob :: User where
  "bob = \<lparr>u_id = ''user-2'', u_owner = ''2vxsx-fae'', u_username = ''bob'',
           u_role = Donor, u_points = 0,
           u_created_at = ''2024-04-30T09:05:00.000Z''\<rparr>"

definition root :: User where
  "root = \<lparr>u_id = ''user-3'', u_owner = ''2vxsx-fae'', u_username = ''root'',
            u_role = Admin, u_points = 0,
            u_created_at = ''2024-04-30T09:10:00.000Z''\<rparr>"

definition primary :: Campaign where
  "primary = \<lparr>c_id = ''camp-1'', c_name = ''Primary 2024'',
               c_description = ''Primary election'', c_created_by = ''user-1'',
               c_created_at = ''2024-04-30T10:00:00.000Z'',
               c_updated_at = ''2024-04-30T10:00:00.000Z''\<rparr>"

definition sample_stores :: stores where
  "sample_stores =
     \<lparr>campaignStorage = [(''camp-1'', primary)], donationStorage = [],
      expenseStorage = [], outreachStorage = [], messageStorage = [],
      notificationStorage = [],
      userStorage = [(''user-1'', alice), (''user-2'', bob), (''user-3'', root)]\<rparr>"

definition sample_provider :: provider where
  "sample_provider =
     \<lparr>uuidv4 = (\<lambda>i. if i = 0 then ''uuid-a'' else ''uuid-b''),
      toISOString = (\<lambda>j. ''2024-05-01T10:00:00.000Z''),
      caller = ''2vxsx-fae''\<rparr>"

subsection \<open>Reading an outcome\<close>

fun result_of :: "'a outcome \<Rightarrow> 'a Result option" where
  "result_of (Return r s) = Some r"
| "result_of Throw = None"

fun stores_of :: "'a outcome \<Rightarrow> stores option" where
  "stores_of (Return r s) = Some s"
| "stores_of Throw = None"

text \<open>An outcome has failed when the method returned \<^verbatim>\<open>Err\<close> of some error.\<close>

fun failed :: "'a outcome \<Rightarrow> bool" where
  "failed (Return (Err e) s) = True"
| "failed (Return (Ok v) s) = False"
| "failed Throw = False"

section \<open>Properties\<close>

lemmas sample_defs =
  sample_stores_def sample_provider_def alice_def bob_def root_def primary_def

subsection \<open>The stable maps\<close>

lemma btree_get_insert_same: "btree_get (btree_insert k v m) k = Some v"
  by (induction m) auto

lemma btree_get_insert_other:
  "k' \<noteq> k \<Longrightarrow> btree_get (btree_insert k v m) k' = btree_get m k'"
  by (induction m) auto

text \<open>Keys of one length are ordered as strings; a shorter key comes before a longer
  one, whatever their content.\<close>

lemma append_same_less: "(xs @ ys < xs @ zs) = (ys < (zs :: 'a::linorder list))"
  by (induction xs) auto

lemma key_less_same_length:
  "length k = length k' \<Longrightarrow> key_less k k' \<longleftrightarrow> k < k'"
  by (simp add: key_less_def key_bytes_def append_same_less)

lemma key_less_shorter_first: "key_less ''user-bob'' ''user-alice''"
  by code_simp

text \<open>The users of the sample state are listed in key order: inserting them in
  another order gives the same list.\<close>

lemma sample_users_in_key_order:
  "btree_insert ''user-2'' bob
     (btree_insert ''user-3'' root (btree_insert ''user-1'' alice []))
   = userStorage sample_stores"
  by (simp add: sample_stores_def key_less_same_length)

text \<open>A new key adds one value; the values that satisfy \<open>P\<close> grow by one exactly when
  the new value does.\<close>

lemma filter_values_insert_fresh:
  "btree_get m k = None \<Longrightarrow>
   length (filter P (btree_values (btree_insert k v m)))
     = length (filter P (btree_values m)) + (if P v then 1 else 0)"
  by (induction m) (auto simp: btree_values_def split: if_splits)

text \<open>Whether the key is new or not: if no stored value satisfied \<open>P\<close> and the inserted
  one does, it is the only one afterwards.\<close>

lemma filter_values_insert_unique:
  "\<forall>x \<in> set (btree_values m). \<not> P x \<Longrightarrow> P v \<Longrightarrow>
   length (filter P (btree_values (btree_insert k v m))) = 1"
  by (induction m) (auto simp: btree_values_def)

subsection \<open>The notification helper writes one store only\<close>

lemma notify_frame:
  "campaignStorage (notifyParticipants pr i j c msg s) = campaignStorage s"
  "donationStorage (notifyParticipants pr i j c msg s) = donationStorage s"
  "expenseStorage (notifyParticipants pr i j c msg s) = expenseStorage s"
  "outreachStorage (notifyParticipants pr i j c msg s) = outreachStorage s"
  "messageStorage (notifyParticipants pr i j c msg s) = messageStorage s"
  "userStorage (notifyParticipants pr i j c msg s) = userStorage s"
  by (simp_all add: notifyParticipants_def Let_def)

lemma notify_notifications:
  "notificationStorage (notifyParticipants pr i j c msg s) =
     btree_insert (uuidv4 pr i)
       \<lparr>n_id = uuidv4 pr i, n_campaign_id = c, n_message = msg,
        n_created_at = toISOString pr j\<rparr>
       (notificationStorage s)"
  by (simp add: notifyParticipants_def Let_def)

subsection \<open>Totality of the methods\<close>

text \<open>
  In \<^verbatim>\<open>createCampaign\<close> the guard for a missing creator is \<^verbatim>\<open>userOpt === null\<close>,
  which no \<^verbatim>\<open>Opt\<close> satisfies. With non-empty name and description and a
  \<^verbatim>\<open>created_by\<close> that no user is stored under, the method goes on to
  \<^verbatim>\<open>userOpt.Some.role\<close> and throws.
\<close>

lemma createCampaign_unresolved:
  "cp_name payload \<noteq> [] \<Longrightarrow> cp_description payload \<noteq> [] \<Longrightarrow>
   btree_get (userStorage s) (cp_created_by payload) = None \<Longrightarrow>
   createCampaign pr payload s = Throw"
  by (simp add: createCampaign_def str_not_def opt_strict_eq_null_def)

text \<open>That is the only way the method throws, and no other write method throws.\<close>

lemma createCampaign_throws_iff:
  "createCampaign pr payload s = Throw \<longleftrightarrow>
     cp_name payload \<noteq> [] \<and> cp_description payload \<noteq> []
     \<and> btree_get (userStorage s) (cp_created_by payload) = None"
  by (auto simp: createCampaign_def str_not_def opt_strict_eq_null_def Let_def
        split: option.splits)

lemma other_writes_return:
  "createUser pr up s \<noteq> Throw"
  "updateCampaign pr cid cp s \<noteq> Throw"
  "createDonation pr dp up s \<noteq> Throw"
  "createExpense pr ep up s \<noteq> Throw"
  "createVoterOutreach pr vp up s \<noteq> Throw"
  "createMessage pr mp up s \<noteq> Throw"
  by (simp_all add: createUser_def updateCampaign_def createDonation_def createExpense_def
        createVoterOutreach_def createMessage_def Let_def split: option.splits)

text \<open>
  Claim C1: every exposed method returns a success value or one of the four tagged
  errors and never throws; in particular \<^verbatim>\<open>createCampaign\<close> with non-empty name and
  description and a \<^verbatim>\<open>created_by\<close> that resolves to no stored user returns a tagged
  result. The full canister does not: at the sample state, with the creator id
  \<^verbatim>\<open>user-9\<close>, the call throws and returns nothing.
\<close>

theorem createCampaign_unknown_creator_throws:
  "createCampaign sample_provider
     \<lparr>cp_name = ''General 2024'', cp_description = ''General election'',
      cp_created_by = ''user-9''\<rparr> sample_stores = Throw"
  by (simp add: createCampaign_def sample_defs str_not_def opt_strict_eq_null_def)

subsection \<open>Expenses and outreach for a campaign that does not exist\<close>

text \<open>Neither method ever answers NotFound: the branch is guarded by \<^verbatim>\<open>!campaign\<close>.\<close>

lemma createExpense_never_NotFound:
  "createExpense pr payload userPayload s \<noteq> Return (Err (NotFound msg)) s'"
  by (simp add: createExpense_def opt_not_def Let_def split: option.splits)

lemma createVoterOutreach_never_NotFound:
  "createVoterOutreach pr payload userPayload s \<noteq> Return (Err (NotFound msg)) s'"
  by (simp add: createVoterOutreach_def opt_not_def Let_def split: option.splits)

text \<open>
  Claim C2: \<^verbatim>\<open>createExpense\<close> by an Admin with non-empty description and a positive
  amount, and \<^verbatim>\<open>createVoterOutreach\<close> by an existing user with non-empty activity,
  date and status, return NotFound and insert nothing when \<^verbatim>\<open>campaign_id\<close> names no
  campaign. Both methods test \<^verbatim>\<open>!campaign\<close> on the \<^verbatim>\<open>Opt\<close> that \<^verbatim>\<open>get\<close>
  returns, which is never true: at the sample state, for the campaign id
  \<^verbatim>\<open>camp-404\<close>, each returns \<open>Ok\<close> and stores its record.
\<close>

theorem create_expense_outreach_missing_campaign_stored:
  "btree_get (campaignStorage sample_stores) ''camp-404'' = None \<and>
   result_of (createExpense sample_provider
       \<lparr>ep_campaign_id = ''camp-404'', ep_description = ''flyers'', ep_amount = 100\<rparr>
       \<lparr>up_username = ''root'', up_role = Admin\<rparr> sample_stores)
     = Some (Ok \<lparr>e_id = ''uuid-a'', e_campaign_id = ''camp-404'', e_description = ''flyers'',
                 e_amount = 100, e_created_at = ''2024-05-01T10:00:00.000Z''\<rparr>) \<and>
   map_option expenseStorage (stores_of (createExpense sample_provider
       \<lparr>ep_campaign_id = ''camp-404'', ep_description = ''flyers'', ep_amount = 100\<rparr>
       \<lparr>up_username = ''root'', up_role = Admin\<rparr> sample_stores))
     = Some [(''uuid-a'', \<lparr>e_id = ''uuid-a'', e_campaign_id = ''camp-404'',
                e_description = ''flyers'', e_amount = 100,
                e_created_at = ''2024-05-01T10:00:00.000Z''\<rparr>)] \<and>
   result_of (createVoterOutreach sample_provider
       \<lparr>vp_campaign_id = ''camp-404'', vp_activity = ''door knocking'',
        vp_date = ''2024-05-02'', vp_status = ''planned''\<rparr>
       \<lparr>up_username = ''bob'', up_role = Donor\<rparr> sample_stores)
     = Some (Ok \<lparr>v_id = ''uuid-a'', v_campaign_id = ''camp-404'',
                 v_activity = ''door knocking'', v_date = ''2024-05-02'',
                 v_status = ''planned'', v_created_at = ''2024-05-01T10:00:00.000Z''\<rparr>) \<and>
   map_option outreachStorage (stores_of (createVoterOutreach sample_provider
       \<lparr>vp_campaign_id = ''camp-404'', vp_activity = ''door knocking'',
        vp_date = ''2024-05-02'', vp_status = ''planned''\<rparr>
       \<lparr>up_username = ''bob'', up_role = Donor\<rparr> sample_stores))
     = Some [(''uuid-a'', \<lparr>v_id = ''uuid-a'', v_campaign_id = ''camp-404'',
                v_activity = ''door knocking'', v_date = ''2024-05-02'',
                v_status = ''planned'', v_created_at = ''2024-05-01T10:00:00.000Z''\<rparr>)]"
  by (simp add: createExpense_def createVoterOutreach_def sample_defs btree_values_def
        tag_in_def str_not_def opt_not_def notifyParticipants_def Let_def)

subsection \<open>Users by role\<close>

text \<open>
  The two comparisons of \<^verbatim>\<open>getUsersByRole\<close> read \<^verbatim>\<open>!== null\<close>. For the query
  \<^verbatim>\<open>{Admin: null}\<close> the first is false and the second true, so the filter keeps
  the users that are not campaign managers; for any other query the first is true and
  the filter keeps the users that are not admins.
\<close>

lemma role_test:
  "(if role_prop role Admin \<noteq> JsNull then role_prop r Admin \<noteq> JsNull
    else if role_prop role CampaignManager \<noteq> JsNull
      then role_prop r CampaignManager \<noteq> JsNull
    else False) = (if role = Admin then r \<noteq> CampaignManager else r \<noteq> Admin)"
  by (cases role; cases r) (simp_all add: role_prop_def)

lemma getUsersByRole_filter:
  "getUsersByRole role s =
     (let users = filter (\<lambda>user. if role = Admin then u_role user \<noteq> CampaignManager
                                  else u_role user \<noteq> Admin) (btree_values (userStorage s))
      in if users = [] then Err (NotFound ''No users found with the specified role'')
         else Ok users)"
  unfolding getUsersByRole_def role_test by simp

text \<open>
  Claim C3: \<^verbatim>\<open>getUsersByRole\<close> returns exactly the stored users whose role equals
  the queried tag for Admin and CampaignManager, and a Donor query matches no user and
  returns NotFound in every state. At the sample state the Donor query returns the
  campaign manager and the donor, the Admin query the donor and the admin, and the
  CampaignManager query the campaign manager and the donor.
\<close>

theorem getUsersByRole_sample_queries:
  "getUsersByRole Donor sample_stores = Ok [alice, bob] \<and>
   getUsersByRole Admin sample_stores = Ok [bob, root] \<and>
   getUsersByRole CampaignManager sample_stores = Ok [alice, bob]"
  by (simp add: getUsersByRole_def sample_defs btree_values_def role_prop_def)

subsection \<open>A failed write leaves the stores as they were\<close>

lemma createUser_failed:
  "failed (createUser pr p s) \<Longrightarrow> stores_of (createUser pr p s) = Some s"
  by (auto simp: createUser_def Let_def split: option.splits if_splits)

lemma createCampaign_failed:
  "failed (createCampaign pr p s) \<Longrightarrow> stores_of (createCampaign pr p s) = Some s"
  by (auto simp: createCampaign_def Let_def split: option.splits if_splits)

lemma updateCampaign_failed:
  "failed (updateCampaign pr cid p s) \<Longrightarrow> stores_of (updateCampaign pr cid p s) = Some s"
  by (auto simp: updateCampaign_def Let_def split: option.splits if_splits)

lemma createDonation_failed:
  "failed (createDonation pr p up s) \<Longrightarrow> stores_of (createDonation pr p up s) = Some s"
  by (auto simp: createDonation_def Let_def split: option.splits if_splits)

lemma createExpense_failed:
  "failed (createExpense pr p up s) \<Longrightarrow> stores_of (createExpense pr p up s) = Some s"
  by (auto simp: createExpense_def Let_def split: option.splits if_splits)

lemma createVoterOutreach_failed:
  "failed (createVoterOutreach pr p up s) \<Longrightarrow>
   stores_of (createVoterOutreach pr p up s) = Some s"
  by (auto simp: createVoterOutreach_def Let_def split: option.splits if_splits)

lemma createMessage_failed:
  "failed (createMessage pr p up s) \<Longrightarrow> stores_of (createMessage pr p up s) = Some s"
  by (auto simp: createMessage_def Let_def split: option.splits if_splits)

text \<open>
  Claim C4: for each of the seven write methods and every state of the stores, when
  the method returns one of the four error tags, all seven stores, the notification
  store among them, are exactly as before the call.
\<close>

theorem writes_atomic_on_error:
  "(failed (createUser pr up s) \<longrightarrow> stores_of (createUser pr up s) = Some s) \<and>
   (failed (createCampaign pr cp s) \<longrightarrow> stores_of (createCampaign pr cp s) = Some s) \<and>
   (failed (updateCampaign pr cid cp s)
      \<longrightarrow> stores_of (updateCampaign pr cid cp s) = Some s) \<and>
   (failed (createDonation pr dp up s) \<longrightarrow> stores_of (createDonation pr dp up s) = Some s) \<and>
   (failed (createExpense pr ep up s) \<longrightarrow> stores_of (createExpense pr ep up s) = Some s) \<and>
   (failed (createVoterOutreach pr vp up s)
      \<longrightarrow> stores_of (createVoterOutreach pr vp up s) = Some s) \<and>
   (failed (createMessage pr mp up s) \<longrightarrow> stores_of (createMessage pr mp up s) = Some s)"
  by (intro conjI impI)
     (erule createUser_failed createCampaign_failed updateCampaign_failed
        createDonation_failed createExpense_failed createVoterOutreach_failed
        createMessage_failed)+

theorem writes_atomic_on_error_witness:
  "failed (createUser sample_provider \<lparr>up_username = ''alice'', up_role = Donor\<rparr>
     sample_stores) \<and>
   stores_of (createUser sample_provider \<lparr>up_username = ''alice'', up_role = Donor\<rparr>
     sample_stores) = Some sample_stores \<and>
   failed (createCampaign sample_provider
     \<lparr>cp_name = '''', cp_description = ''General election'', cp_created_by = ''user-1''\<rparr>
     sample_stores) \<and>
   stores_of (createCampaign sample_provider
     \<lparr>cp_name = '''', cp_description = ''General election'', cp_created_by = ''user-1''\<rparr>
     sample_stores) = Some sample_stores \<and>
   failed (updateCampaign sample_provider ''camp-404''
     \<lparr>cp_name = '''', cp_description = ''General election'', cp_created_by = ''user-1''\<rparr>
     sample_stores) \<and>
   stores_of (updateCampaign sample_provider ''camp-404''
     \<lparr>cp_name = '''', cp_description = ''General election'', cp_created_by = ''user-1''\<rparr>
     sample_stores) = Some sample_stores \<and>
   failed (createDonation sample_provider
     \<lparr>dp_campaign_id = ''camp-1'', dp_donor_name = ''Alice'', dp_amount = 50\<rparr>
     \<lparr>up_username = ''alice'', up_role = Donor\<rparr> sample_stores) \<and>
   stores_of (createDonation sample_provider
     \<lparr>dp_campaign_id = ''camp-1'', dp_donor_name = ''Alice'', dp_amount = 50\<rparr>
     \<lparr>up_username = ''alice'', up_role = Donor\<rparr> sample_stores) = Some sample_stores \<and>
   failed (createExpense sample_provider
     \<lparr>ep_campaign_id = ''camp-1'', ep_description = ''flyers'', ep_amount = 100\<rparr>
     \<lparr>up_username = ''alice'', up_role = Donor\<rparr> sample_stores) \<and>
   stores_of (createExpense sample_provider
     \<lparr>ep_campaign_id = ''camp-1'', ep_description = ''flyers'', ep_amount = 100\<rparr>
     \<lparr>up_username = ''alice'', up_role = Donor\<rparr> sample_stores) = Some sample_stores \<and>
   failed (createVoterOutreach sample_provider
     \<lparr>vp_campaign_id = ''camp-1'', vp_activity = '''', vp_date = ''2024-05-02'',
      vp_status = ''planned''\<rparr>
     \<lparr>up_username = ''alice'', up_role = Donor\<rparr> sample_stores) \<and>
   stores_of (createVoterOutreach sample_provider
     \<lparr>vp_campaign_id = ''camp-1'', vp_activity = '''', vp_date = ''2024-05-02'',
      vp_status = ''planned''\<rparr>
     \<lparr>up_username = ''alice'', up_role = Donor\<rparr> sample_stores) = Some sample_stores \<and>
   failed (createMessage sample_provider
     \<lparr>mp_campaign_id = ''camp-1'', mp_sender = ''user-2'', mp_content = ''''\<rparr>
     \<lparr>up_username = ''alice'', up_role = Donor\<rparr> sample_stores) \<and>
   stores_of (createMessage sample_provider
     \<lparr>mp_campaign_id = ''camp-1'', mp_sender = ''user-2'', mp_content = ''''\<rparr>
     \<lparr>up_username = ''alice'', up_role = Donor\<rparr> sample_stores) = Some sample_stores"
proof -
  have f1: "failed (createUser sample_provider \<lparr>up_username = ''alice'', up_role = Donor\<rparr>
      sample_stores)"
    by (simp add: createUser_def role_not_def sample_defs btree_values_def)
  have f2: "failed (createCampaign sample_provider
      \<lparr>cp_name = '''', cp_description = ''General election'', cp_created_by = ''user-1''\<rparr>
      sample_stores)"
    by (simp add: createCampaign_def str_not_def)
  have f3: "failed (updateCampaign sample_provider ''camp-404''
      \<lparr>cp_name = '''', cp_description = ''General election'', cp_created_by = ''user-1''\<rparr>
      sample_stores)"
    by (simp add: updateCampaign_def sample_defs)
  have f4: "failed (createDonation sample_provider
      \<lparr>dp_campaign_id = ''camp-1'', dp_donor_name = ''Alice'', dp_amount = 50\<rparr>
      \<lparr>up_username = ''alice'', up_role = Donor\<rparr> sample_stores)"
    by (simp add: createDonation_def tag_in_def sample_defs btree_values_def)
  have f5: "failed (createExpense sample_provider
      \<lparr>ep_campaign_id = ''camp-1'', ep_description = ''flyers'', ep_amount = 100\<rparr>
      \<lparr>up_username = ''alice'', up_role = Donor\<rparr> sample_stores)"
    by (simp add: createExpense_def tag_in_def sample_defs btree_values_def)
  have f6: "failed (createVoterOutreach sample_provider
      \<lparr>vp_campaign_id = ''camp-1'', vp_activity = '''', vp_date = ''2024-05-02'',
       vp_status = ''planned''\<rparr>
      \<lparr>up_username = ''alice'', up_role = Donor\<rparr> sample_stores)"
    by (simp add: createVoterOutreach_def str_not_def sample_defs btree_values_def)
  have f7: "failed (createMessage sample_provider
      \<lparr>mp_campaign_id = ''camp-1'', mp_sender = ''user-2'', mp_content = ''''\<rparr>
      \<lparr>up_username = ''alice'', up_role = Donor\<rparr> sample_stores)"
    by (simp add: createMessage_def str_not_def sample_defs btree_values_def)
  from f1 f2 f3 f4 f5 f6 f7
    writes_atomic_on_error [of sample_provider
      "\<lparr>up_username = ''alice'', up_role = Donor\<rparr>" sample_stores
      "\<lparr>cp_name = '''', cp_description = ''General election'', cp_created_by = ''user-1''\<rparr>"
      "''camp-404''"
      "\<lparr>dp_campaign_id = ''camp-1'', dp_donor_name = ''Alice'', dp_amount = 50\<rparr>"
      "\<lparr>ep_campaign_id = ''camp-1'', ep_description = ''flyers'', ep_amount = 100\<rparr>"
      "\<lparr>vp_campaign_id = ''camp-1'', vp_activity = '''', vp_date = ''2024-05-02'',
        vp_status = ''planned''\<rparr>"
      "\<lparr>mp_campaign_id = ''camp-1'', mp_sender = ''user-2'', mp_content = ''''\<rparr>"]
  show ?thesis by blast
qed

subsection \<open>A creator that no user is stored under\<close>

text \<open>
  Claim C5, as amended: for every \<^verbatim>\<open>updateCampaign\<close> call on an existing campaign
  with non-empty name and description whose \<^verbatim>\<open>created_by\<close> resolves to no stored
  user, the method fails with the NotFound tag and leaves the stores as they were.
  (The claim names the Unauthorized tag; the method keeps that tag for a creator that
  is stored with the Donor role.)
\<close>

theorem updateCampaign_unresolved_creator:
  assumes "btree_get (campaignStorage s) campaignId = Some existing"
      and "cp_name payload \<noteq> []" and "cp_description payload \<noteq> []"
      and "btree_get (userStorage s) (cp_created_by payload) = None"
  shows "updateCampaign pr campaignId payload s
       = Return (Err (NotFound (''User with ID '' @ cp_created_by payload @ '' not found''))) s"
  using assms by (simp add: updateCampaign_def str_not_def)

theorem updateCampaign_unresolved_creator_witness:
  "btree_get (campaignStorage sample_stores) ''camp-1'' = Some primary \<and>
   cp_name \<lparr>cp_name = ''General 2024'', cp_description = ''General election'',
      cp_created_by = ''user-9''\<rparr> \<noteq> [] \<and>
   cp_description \<lparr>cp_name = ''General 2024'', cp_description = ''General election'',
      cp_created_by = ''user-9''\<rparr> \<noteq> [] \<and>
   btree_get (userStorage sample_stores) ''user-9'' = None \<and>
   updateCampaign sample_provider ''camp-1''
     \<lparr>cp_name = ''General 2024'', cp_description = ''General election'',
      cp_created_by = ''user-9''\<rparr> sample_stores
   = Return (Err (NotFound (''User with ID '' @ ''user-9'' @ '' not found''))) sample_stores"
proof -
  have camp: "btree_get (campaignStorage sample_stores) ''camp-1'' = Some primary"
    by (simp add: sample_stores_def)
  have ghost: "btree_get (userStorage sample_stores)
      (cp_created_by \<lparr>cp_name = ''General 2024'', cp_description = ''General election'',
         cp_created_by = ''user-9''\<rparr>) = None"
    by (simp add: sample_stores_def)
  show ?thesis
    using camp ghost
      updateCampaign_unresolved_creator [OF camp _ _ ghost, of sample_provider]
    by simp
qed

text \<open>
  The call at which the claim as first stated fails: on the stored campaign
  \<^verbatim>\<open>camp-1\<close>, with the creator id \<^verbatim>\<open>user-9\<close>, the tag returned is NotFound,
  not Unauthorized.
\<close>

theorem updateCampaign_unknown_creator_not_found:
  "updateCampaign sample_provider ''camp-1''
     \<lparr>cp_name = ''General 2024'', cp_description = ''General election'',
      cp_created_by = ''user-9''\<rparr> sample_stores
   = Return (Err (NotFound ''User with ID user-9 not found'')) sample_stores"
  by (simp add: updateCampaign_def sample_defs str_not_def)

subsection \<open>Creating a campaign\<close>

text \<open>
  A valid payload is stored and can be read back. Its \<^verbatim>\<open>updated_at\<close> is the first
  reading of the clock and its \<^verbatim>\<open>created_at\<close> the second.
\<close>

lemma createCampaign_ok:
  assumes "cp_name payload \<noteq> []" and "cp_description payload \<noteq> []"
      and "btree_get (userStorage s) (cp_created_by payload) = Some user"
      and "u_role user = Admin \<or> u_role user = CampaignManager"
  shows "\<exists>campaign s'. createCampaign pr payload s = Return (Ok campaign) s'
           \<and> c_updated_at campaign = toISOString pr 0
           \<and> c_created_at campaign = toISOString pr 1
           \<and> getCampaignById (c_id campaign) s' = Ok campaign"
  using assms
  by (auto simp: createCampaign_def str_not_def opt_strict_eq_null_def tag_in_def Let_def
        getCampaignById_def notify_frame btree_get_insert_same)

text \<open>
  Claim C6: for every payload with non-empty name and description whose
  \<^verbatim>\<open>created_by\<close> is a stored Admin or CampaignManager, \<^verbatim>\<open>createCampaign\<close> returns
  \<open>Ok\<close> with a record whose \<^verbatim>\<open>created_at\<close> equals its \<^verbatim>\<open>updated_at\<close>, and
  \<^verbatim>\<open>getCampaignById\<close> on the id of the record returns that record. The two dates are
  the second and the first reading of the clock in the call, which are the one time of
  the message.
\<close>

theorem createCampaign_stamped_and_readable:
  assumes "cp_name payload \<noteq> []" and "cp_description payload \<noteq> []"
      and "btree_get (userStorage s) (cp_created_by payload) = Some user"
      and "u_role user = Admin \<or> u_role user = CampaignManager"
      and "toISOString pr 1 = toISOString pr 0"
  shows "\<exists>campaign s'. createCampaign pr payload s = Return (Ok campaign) s'
           \<and> c_created_at campaign = c_updated_at campaign
           \<and> getCampaignById (c_id campaign) s' = Ok campaign"
proof -
  from createCampaign_ok [OF assms(1-4), of pr]
  obtain campaign s' where
    run: "createCampaign pr payload s = Return (Ok campaign) s'" and
    upd: "c_updated_at campaign = toISOString pr 0" and
    cre: "c_created_at campaign = toISOString pr 1" and
    rd: "getCampaignById (c_id campaign) s' = Ok campaign"
    by blast
  from upd cre assms(5) have "c_created_at campaign = c_updated_at campaign"
    by simp
  with run rd show ?thesis by blast
qed

theorem createCampaign_stamped_and_readable_witness:
  "btree_get (userStorage sample_stores) ''user-1'' = Some alice \<and>
   u_role alice = CampaignManager \<and>
   toISOString sample_provider 1 = toISOString sample_provider 0 \<and>
   (\<exists>campaign s'.
      createCampaign sample_provider
        \<lparr>cp_name = ''General 2024'', cp_description = ''General election'',
         cp_created_by = ''user-1''\<rparr> sample_stores = Return (Ok campaign) s'
    \<and> c_created_at campaign = c_updated_at campaign
    \<and> getCampaignById (c_id campaign) s' = Ok campaign)"
proof -
  let ?p = "\<lparr>cp_name = ''General 2024'', cp_description = ''General election'',
             cp_created_by = ''user-1''\<rparr>"
  have h1: "cp_name ?p \<noteq> []" by simp
  have h2: "cp_description ?p \<noteq> []" by simp
  have h3: "btree_get (userStorage sample_stores) (cp_created_by ?p) = Some alice"
    by (simp add: sample_stores_def)
  have h4: "u_role alice = Admin \<or> u_role alice = CampaignManager"
    by (simp add: alice_def)
  have h5: "toISOString sample_provider 1 = toISOString sample_provider 0"
    by (simp add: sample_provider_def)
  have role: "u_role alice = CampaignManager" by (simp add: alice_def)
  from h3 have stored: "btree_get (userStorage sample_stores) ''user-1'' = Some alice"
    by simp
  from stored role h5 createCampaign_stamped_and_readable [OF h1 h2 h3 h4 h5]
  show ?thesis by blast
qed

subsection \<open>The amount of a donation\<close>

text \<open>The notifications of a campaign are what \<^verbatim>\<open>getNotificationsByCampaignId\<close>
  lists, when there are any.\<close>

lemma getNotificationsByCampaignId_Ok:
  "getNotificationsByCampaignId campaignId s = Ok ns \<Longrightarrow>
   ns = filter (\<lambda>n. n_campaign_id n = campaignId) (btree_values (notificationStorage s))"
  by (auto simp: getNotificationsByCampaignId_def Let_def split: if_splits)

text \<open>
  Claim C7: in every state with an existing campaign, a caller username that resolves
  to a Donor and a non-empty donor name, \<^verbatim>\<open>createDonation\<close> with amount 0 returns
  InvalidPayload, and with amount 1 it returns \<open>Ok\<close> and the number of notifications
  of that campaign grows by exactly one. The id drawn for the notification is a new
  key of the notification store, as the ids of the uuid generator are.
\<close>

theorem createDonation_amount_boundary:
  assumes "find (\<lambda>u. u_username u = up_username userPayload) (btree_values (userStorage s))
             = Some user"
      and "u_role user = Donor"
      and "dp_donor_name payload \<noteq> []"
      and "btree_get (campaignStorage s) (dp_campaign_id payload) = Some campaign"
      and "btree_get (notificationStorage s) (uuidv4 pr 1) = None"
  shows "createDonation pr (payload\<lparr>dp_amount := 0\<rparr>) userPayload s
           = Return (Err (InvalidPayload
               ''Ensure donor name and valid amount are provided'')) s
       \<and> (\<exists>donation s'.
             createDonation pr (payload\<lparr>dp_amount := 1\<rparr>) userPayload s
               = Return (Ok donation) s'
           \<and> length (filter (\<lambda>n. n_campaign_id n = dp_campaign_id payload)
                 (btree_values (notificationStorage s')))
             = length (filter (\<lambda>n. n_campaign_id n = dp_campaign_id payload)
                 (btree_values (notificationStorage s))) + 1)"
proof
  show "createDonation pr (payload\<lparr>dp_amount := 0\<rparr>) userPayload s
           = Return (Err (InvalidPayload
               ''Ensure donor name and valid amount are provided'')) s"
    using assms(1,2) by (simp add: createDonation_def tag_in_def)
next
  let ?d = "\<lparr>d_id = uuidv4 pr 0, d_campaign_id = dp_campaign_id payload,
              d_donor_name = dp_donor_name payload, d_amount = 1,
              d_created_at = toISOString pr 0\<rparr>"
  let ?s1 = "s\<lparr>donationStorage := btree_insert (uuidv4 pr 0) ?d (donationStorage s)\<rparr>"
  let ?s' = "notifyParticipants pr 1 1 (dp_campaign_id payload) ''New donation received.'' ?s1"
  have run: "createDonation pr (payload\<lparr>dp_amount := 1\<rparr>) userPayload s = Return (Ok ?d) ?s'"
    using assms(1-4) by (simp add: createDonation_def tag_in_def str_not_def Let_def)
  have "length (filter (\<lambda>n. n_campaign_id n = dp_campaign_id payload)
                 (btree_values (notificationStorage ?s')))
      = length (filter (\<lambda>n. n_campaign_id n = dp_campaign_id payload)
                 (btree_values (notificationStorage s))) + 1"
    using assms(5) by (simp add: notify_notifications filter_values_insert_fresh)
  with run show "\<exists>donation s'.
             createDonation pr (payload\<lparr>dp_amount := 1\<rparr>) userPayload s
               = Return (Ok donation) s'
           \<and> length (filter (\<lambda>n. n_campaign_id n = dp_campaign_id payload)
                 (btree_values (notificationStorage s')))
             = length (filter (\<lambda>n. n_campaign_id n = dp_campaign_id payload)
                 (btree_values (notificationStorage s))) + 1"
    by blast
qed

theorem createDonation_amount_boundary_witness:
  "find (\<lambda>u. u_username u = ''bob'') (btree_values (userStorage sample_stores)) = Some bob \<and>
   u_role bob = Donor \<and>
   btree_get (campaignStorage sample_stores) ''camp-1'' = Some primary \<and>
   btree_get (notificationStorage sample_stores) (uuidv4 sample_provider 1) = None \<and>
   createDonation sample_provider
       \<lparr>dp_campaign_id = ''camp-1'', dp_donor_name = ''Bob'', dp_amount = 0\<rparr>
       \<lparr>up_username = ''bob'', up_role = Donor\<rparr> sample_stores
     = Return (Err (InvalidPayload ''Ensure donor name and valid amount are provided''))
         sample_stores \<and>
   (\<exists>donation s'.
       createDonation sample_provider
           \<lparr>dp_campaign_id = ''camp-1'', dp_donor_name = ''Bob'', dp_amount = 1\<rparr>
           \<lparr>up_username = ''bob'', up_role = Donor\<rparr> sample_stores
         = Return (Ok donation) s'
     \<and> length (filter (\<lambda>n. n_campaign_id n = ''camp-1'')
           (btree_values (notificationStorage s')))
       = length (filter (\<lambda>n. n_campaign_id n = ''camp-1'')
           (btree_values (notificationStorage sample_stores))) + 1)"
proof -
  have h1: "find (\<lambda>u. u_username u = up_username \<lparr>up_username = ''bob'', up_role = Donor\<rparr>)
              (btree_values (userStorage sample_stores)) = Some bob"
    by (simp add: sample_stores_def btree_values_def alice_def bob_def)
  have h2: "u_role bob = Donor" by (simp add: bob_def)
  have h3: "dp_donor_name \<lparr>dp_campaign_id = ''camp-1'', dp_donor_name = ''Bob'', dp_amount = 50\<rparr>
              \<noteq> []" by simp
  have h4: "btree_get (campaignStorage sample_stores)
              (dp_campaign_id \<lparr>dp_campaign_id = ''camp-1'', dp_donor_name = ''Bob'',
                 dp_amount = 50\<rparr>) = Some primary"
    by (simp add: sample_stores_def)
  have h5: "btree_get (notificationStorage sample_stores) (uuidv4 sample_provider 1) = None"
    by (simp add: sample_stores_def)
  show ?thesis
    using h1 h2 h4 h5 createDonation_amount_boundary [OF h1 h2 h3 h4 h5]
    by simp
qed

subsection \<open>Creating a user\<close>

text \<open>A username that some stored user has is refused, in any state.\<close>

lemma createUser_duplicate:
  assumes "u \<in> set (btree_values (userStorage s))" and "u_username u = up_username payload"
  shows "createUser pr payload s
       = Return (Err (ValidationError
           (''Username already exists '' @ astonished @ '', try another one''))) s"
proof -
  from assms have "find (\<lambda>user. u_username user = up_username payload)
                     (btree_values (userStorage s)) \<noteq> None"
    by (auto simp: find_None_iff)
  then show ?thesis by (auto simp: createUser_def role_not_def)
qed

text \<open>
  Claim C8: \<^verbatim>\<open>createUser\<close> checks the presence of the role and the uniqueness of
  the username only. The role of a payload is a variant, hence always present. For
  every payload whose username, the empty one included, is that of no stored user, the
  method returns \<open>Ok\<close> and stores the user with zero points; a second call with the
  same username then returns ValidationError, and the store holds exactly one user of
  that name.
\<close>

theorem createUser_checks_uniqueness_only:
  assumes "\<forall>u \<in> set (btree_values (userStorage s)). u_username u \<noteq> up_username payload"
  shows "\<exists>user s'.
           createUser pr payload s = Return (Ok user) s'
         \<and> u_username user = up_username payload \<and> u_role user = up_role payload
         \<and> u_points user = 0
         \<and> btree_get (userStorage s') (uuidv4 pr 0) = Some user
         \<and> createUser pr2 \<lparr>up_username = up_username payload, up_role = role2\<rparr> s'
             = Return (Err (ValidationError
                 (''Username already exists '' @ astonished @ '', try another one''))) s'
         \<and> length (filter (\<lambda>u. u_username u = up_username payload)
               (btree_values (userStorage s'))) = 1"
proof -
  let ?user = "\<lparr>u_id = uuidv4 pr 0, u_owner = caller pr, u_username = up_username payload,
                 u_role = up_role payload, u_points = 0, u_created_at = toISOString pr 0\<rparr>"
  let ?s' = "s\<lparr>userStorage := btree_insert (uuidv4 pr 0) ?user (userStorage s)\<rparr>"
  have none: "find (\<lambda>user. u_username user = up_username payload)
                (btree_values (userStorage s)) = None"
    using assms by (simp add: find_None_iff)
  have first: "createUser pr payload s = Return (Ok ?user) ?s'"
    using none by (simp add: createUser_def role_not_def Let_def)
  have one: "length (filter (\<lambda>u. u_username u = up_username payload)
               (btree_values (userStorage ?s'))) = 1"
    using assms by (simp add: filter_values_insert_unique)
  then have "filter (\<lambda>u. u_username u = up_username payload)
               (btree_values (userStorage ?s')) \<noteq> []"
    by auto
  then have "find (\<lambda>user. u_username user = up_username payload)
               (btree_values (userStorage ?s')) \<noteq> None"
    by (auto simp: find_None_iff filter_empty_conv)
  then have second: "createUser pr2 \<lparr>up_username = up_username payload, up_role = role2\<rparr> ?s'
             = Return (Err (ValidationError
                 (''Username already exists '' @ astonished @ '', try another one''))) ?s'"
    by (auto simp: createUser_def role_not_def)
  have stored: "btree_get (userStorage ?s') (uuidv4 pr 0) = Some ?user"
    by (simp add: btree_get_insert_same)
  from first second one stored show ?thesis
    by (intro exI [of _ ?user] exI [of _ ?s']) simp
qed

theorem createUser_checks_uniqueness_only_witness:
  "\<exists>user s'.
      createUser sample_provider \<lparr>up_username = '''', up_role = Donor\<rparr> sample_stores
        = Return (Ok user) s'
    \<and> u_username user = '''' \<and> u_role user = Donor \<and> u_points user = 0
    \<and> btree_get (userStorage s') ''uuid-a'' = Some user
    \<and> createUser sample_provider \<lparr>up_username = '''', up_role = Admin\<rparr> s'
        = Return (Err (ValidationError
            (''Username already exists '' @ astonished @ '', try another one''))) s'
    \<and> length (filter (\<lambda>u. u_username u = '''') (btree_values (userStorage s'))) = 1"
proof -
  have h: "\<forall>u \<in> set (btree_values (userStorage sample_stores)).
             u_username u \<noteq> up_username \<lparr>up_username = '''', up_role = Donor\<rparr>"
    by (simp add: sample_stores_def btree_values_def alice_def bob_def root_def)
  have u: "uuidv4 sample_provider 0 = ''uuid-a''" by (simp add: sample_provider_def)
  show ?thesis
    using createUser_checks_uniqueness_only [OF h, of sample_provider sample_provider Admin] u
    by simp
qed

subsection \<open>Updating a campaign\<close>

text \<open>
  Claim C9: after every successful \<^verbatim>\<open>updateCampaign\<close> the campaign stored under
  the id keeps its id and \<^verbatim>\<open>created_at\<close>, has the name, description and
  \<^verbatim>\<open>created_by\<close> of the payload and the current time as \<^verbatim>\<open>updated_at\<close>, and no
  other campaign has changed.
\<close>

theorem updateCampaign_replaces_fields:
  assumes "updateCampaign pr campaignId payload s = Return (Ok updated) s'"
  shows "\<exists>existing.
           btree_get (campaignStorage s) campaignId = Some existing
         \<and> btree_get (campaignStorage s') campaignId = Some updated
         \<and> c_id updated = c_id existing
         \<and> c_created_at updated = c_created_at existing
         \<and> c_name updated = cp_name payload
         \<and> c_description updated = cp_description payload
         \<and> c_created_by updated = cp_created_by payload
         \<and> c_updated_at updated = toISOString pr 0
         \<and> (\<forall>k. k \<noteq> campaignId \<longrightarrow>
               btree_get (campaignStorage s') k = btree_get (campaignStorage s) k)"
  using assms
  by (auto simp: updateCampaign_def Let_def notify_frame btree_get_insert_same
        btree_get_insert_other split: option.splits if_splits)

theorem updateCampaign_replaces_fields_witness:
  "\<exists>updated s'.
     updateCampaign sample_provider ''camp-1''
       \<lparr>cp_name = ''General 2024'', cp_description = ''General election'',
        cp_created_by = ''user-3''\<rparr> sample_stores = Return (Ok updated) s'
   \<and> btree_get (campaignStorage sample_stores) ''camp-1'' = Some primary
   \<and> btree_get (campaignStorage s') ''camp-1'' = Some updated
   \<and> c_id updated = ''camp-1''
   \<and> c_created_at updated = ''2024-04-30T10:00:00.000Z''
   \<and> c_name updated = ''General 2024''
   \<and> c_description updated = ''General election''
   \<and> c_created_by updated = ''user-3''
   \<and> c_updated_at updated = ''2024-05-01T10:00:00.000Z''"
proof -
  let ?p = "\<lparr>cp_name = ''General 2024'', cp_description = ''General election'',
             cp_created_by = ''user-3''\<rparr>"
  let ?u = "primary\<lparr>c_name := ''General 2024'', c_description := ''General election'',
             c_created_by := ''user-3'', c_updated_at := ''2024-05-01T10:00:00.000Z''\<rparr>"
  let ?s' = "notifyParticipants sample_provider 0 1 ''camp-1'' ''Campaign updated.''
               (sample_stores\<lparr>campaignStorage := [(''camp-1'', ?u)]\<rparr>)"
  have run: "updateCampaign sample_provider ''camp-1'' ?p sample_stores = Return (Ok ?u) ?s'"
    by (simp add: updateCampaign_def str_not_def tag_in_def Let_def sample_stores_def
          sample_provider_def root_def)
  have old: "btree_get (campaignStorage sample_stores) ''camp-1'' = Some primary"
    by (simp add: sample_stores_def)
  from updateCampaign_replaces_fields [OF run]
  have stored: "btree_get (campaignStorage ?s') ''camp-1'' = Some ?u"
    by blast
  have fields: "c_id ?u = ''camp-1'' \<and> c_created_at ?u = ''2024-04-30T10:00:00.000Z''
      \<and> c_name ?u = ''General 2024'' \<and> c_description ?u = ''General election''
      \<and> c_created_by ?u = ''user-3'' \<and> c_updated_at ?u = ''2024-05-01T10:00:00.000Z''"
    by (simp add: primary_def)
  from run old stored fields show ?thesis
    by blast
qed

subsection \<open>The sender of a message\<close>

text \<open>
  Claim C10: \<^verbatim>\<open>createMessage\<close> does not compare the sender with the caller. In
  every state with an existing campaign and two distinct stored users, called with the
  username of the first, a non-empty content and the id of the second as sender, it
  returns \<open>Ok\<close> and stores a message whose sender is the id of the second. The id is
  not empty, as no generated id is.
\<close>

theorem createMessage_sender_not_tied_to_caller:
  assumes "find (\<lambda>u. u_username u = up_username userPayload) (btree_values (userStorage s))
             = Some a"
      and "btree_get (userStorage s) (u_id b) = Some b"
      and "a \<noteq> b"
      and "mp_sender payload = u_id b"
      and "u_id b \<noteq> []"
      and "mp_content payload \<noteq> []"
      and "btree_get (campaignStorage s) (mp_campaign_id payload) = Some campaign"
  shows "\<exists>message s'.
           createMessage pr payload userPayload s = Return (Ok message) s'
         \<and> m_sender message = u_id b
         \<and> btree_get (messageStorage s') (uuidv4 pr 0) = Some message"
  using assms
  by (simp add: createMessage_def str_not_def Let_def notify_frame btree_get_insert_same)

theorem createMessage_sender_not_tied_to_caller_witness:
  "find (\<lambda>u. u_username u = ''alice'') (btree_values (userStorage sample_stores)) = Some alice
   \<and> btree_get (userStorage sample_stores) (u_id bob) = Some bob
   \<and> alice \<noteq> bob
   \<and> u_id bob \<noteq> []
   \<and> btree_get (campaignStorage sample_stores) ''camp-1'' = Some primary
   \<and> (\<exists>message s'.
         createMessage sample_provider
           \<lparr>mp_campaign_id = ''camp-1'', mp_sender = ''user-2'', mp_content = ''hello''\<rparr>
           \<lparr>up_username = ''alice'', up_role = CampaignManager\<rparr> sample_stores
           = Return (Ok message) s'
       \<and> m_sender message = u_id bob
       \<and> btree_get (messageStorage s') (uuidv4 sample_provider 0) = Some message)"
proof -
  let ?p = "\<lparr>mp_campaign_id = ''camp-1'', mp_sender = ''user-2'', mp_content = ''hello''\<rparr>"
  let ?up = "\<lparr>up_username = ''alice'', up_role = CampaignManager\<rparr>"
  have h1: "find (\<lambda>u. u_username u = up_username ?up) (btree_values (userStorage sample_stores))
              = Some alice"
    by (simp add: sample_stores_def btree_values_def alice_def)
  have h2: "btree_get (userStorage sample_stores) (u_id bob) = Some bob"
    by (simp add: sample_stores_def bob_def)
  have h3: "alice \<noteq> bob" by (simp add: alice_def bob_def)
  have h4: "mp_sender ?p = u_id bob" by (simp add: bob_def)
  have h5: "u_id bob \<noteq> []" by (simp add: bob_def)
  have h6: "mp_content ?p \<noteq> []" by simp
  have h7: "btree_get (campaignStorage sample_stores) (mp_campaign_id ?p) = Some primary"
    by (simp add: sample_stores_def)
  show ?thesis
    using h1 h2 h3 h5 h7
      createMessage_sender_not_tied_to_caller [OF h1 h2 h3 h4 h5 h6 h7, of sample_provider]
    by simp
qed

subsection \<open>Where the shorter copy differs\<close>

text \<open>
  The methods of \<^verbatim>\<open>dfinity_js_backend/src/index.ts\<close> reject an empty username,
  report an unresolved creator of a new campaign as NotFound, stamp a new campaign
  with one date, keep the creator of an updated campaign, and match no user by role.
\<close>

lemma createUser_index_empty_username:
  "createUser_index pr \<lparr>up_username = [], up_role = r\<rparr> s
     = Return (Err (InvalidPayload ''Ensure all required fields are provided.'')) s"
  by (simp add: createUser_index_def str_not_def)

lemma createCampaign_index_unresolved:
  "cp_name payload \<noteq> [] \<Longrightarrow> cp_description payload \<noteq> [] \<Longrightarrow>
   btree_get (userStorage s) (cp_created_by payload) = None \<Longrightarrow>
   createCampaign_index pr payload s
     = Return (Err (NotFound (''User with ID '' @ cp_created_by payload @ '' not found.''))) s"
  by (simp add: createCampaign_index_def str_not_def)

lemma createCampaign_index_dates:
  "createCampaign_index pr payload s = Return (Ok campaign) s' \<Longrightarrow>
   c_created_at campaign = c_updated_at campaign"
  by (auto simp: createCampaign_index_def Let_def split: option.splits if_splits)

lemma updateCampaign_index_keeps_creator:
  "updateCampaign_index pr campaignId payload s = Return (Ok updated) s' \<Longrightarrow>
   btree_get (campaignStorage s) campaignId = Some existing \<Longrightarrow>
   c_created_by updated = c_created_by existing"
  by (auto simp: updateCampaign_index_def Let_def split: option.splits if_splits)

lemma getUsersByRole_index_never_matches:
  "getUsersByRole_index role s = Err (NotFound ''No users found with the specified role.'')"
  by (simp add: getUsersByRole_index_def)

end
